theory Spec2Isabelle
  imports Main "HOL-Library.Word"
begin

section \<open>The GraphQL query resolver of the code intelligence layer\<close>

text \<open>
  A shallow embedding of
  \<^verbatim>\<open>enterprise/internal/codeintel/resolvers/graphql/query.go\<close>.

  The Go file defines \<^verbatim>\<open>QueryResolver\<close>, a thin layer over an
  injected \<^verbatim>\<open>resolvers.QueryResolver\<close> (the underlying resolver, an interface),
  and the experimental NavView resolvers. Every method returns a pair
  \<^verbatim>\<open>(value, error)\<close>; the model returns \<open>error + value\<close>, with \<open>Inl\<close> the
  error. The context argument carries cancellation only and is left out.
\<close>

subsection \<open>Errors\<close>

text \<open>
  \<^verbatim>\<open>ErrIllegalLimit = errors.New("illegal limit")\<close> is a package variable;
  \<^verbatim>\<open>fmt.Errorf("unimplemented")\<close> is the error of the NavView references. Every other
  error value comes from outside this file (the cursor decoder, the underlying resolver)
  and is identified by its message.
\<close>

datatype error =
    ErrIllegalLimit
  | ErrUnimplemented
  | ErrOther string

subsection \<open>Arguments\<close>

type_synonym int32 = "32 word"

text \<open>
  The argument structs are declared in the \<^verbatim>\<open>graphqlbackend\<close> package. The model keeps the
  fields that \<^verbatim>\<open>query.go\<close> reads: \<^verbatim>\<open>Line\<close> and \<^verbatim>\<open>Character\<close> (both
  \<^verbatim>\<open>int32\<close>), \<^verbatim>\<open>First\<close> (a \<^verbatim>\<open>*int32\<close>, \<open>None\<close> for the nil pointer) and
  \<^verbatim>\<open>After\<close> (a \<^verbatim>\<open>*string\<close>).
\<close>

record LSIFDiagnosticsArgs =
  First :: "int32 option"

record LSIFQueryPositionArgs =
  Line :: int32
  Character :: int32

record LSIFPagedQueryPositionArgs = LSIFQueryPositionArgs +
  First :: "int32 option"
  After :: "string option"

subsection \<open>Values built by constructors of the package\<close>

text \<open>
  \<^verbatim>\<open>NewLocationConnectionResolver\<close>, \<^verbatim>\<open>NewDiagnosticConnectionResolver\<close>,
  \<^verbatim>\<open>NewHoverResolver\<close> and \<^verbatim>\<open>gql.NewRangeResolver\<close> are constructors whose bodies
  are in other files. The model keeps each result as the constructor applied to its arguments, so a
  theorem about a result says exactly what was passed to the constructor.
  \<open>'loc\<close> stands for \<^verbatim>\<open>resolvers.AdjustedLocation\<close>, \<open>'diag\<close> for
  \<^verbatim>\<open>resolvers.AdjustedDiagnostic\<close>, \<open>'grng\<close> for the range type that
  \<^verbatim>\<open>convertRange\<close> produces and \<open>'lr\<close> for the pointer to the
  \<^verbatim>\<open>CachedLocationResolver\<close>.
\<close>

datatype ('loc, 'lr) LocationConnectionResolver =
  NewLocationConnectionResolver (conn_locations: "'loc list") (conn_cursor: "string option")
    (conn_locationResolver: 'lr)

datatype ('diag, 'lr) DiagnosticConnectionResolver =
  NewDiagnosticConnectionResolver (conn_diagnostics: "'diag list") (conn_totalCount: int)
    (conn_diagLocationResolver: 'lr)

datatype 'grng HoverResolver =
  NewHoverResolver (hover_text: string) (hover_range: 'grng)

datatype 'grng RangeResolver =
  NewRangeResolver (resolver_range: 'grng)

text \<open>
  \<^verbatim>\<open>resolvers.RangeView\<close>, with the four fields the NavView resolvers read
  (\<open>'rng\<close> is the range type of the index).
\<close>

record ('loc, 'rng) RangeView =
  Range :: 'rng
  Definitions :: "'loc list"
  HoverText :: string
  HoverRange :: 'rng

subsection \<open>The underlying resolver and the record of its calls\<close>

text \<open>
  \<^verbatim>\<open>resolvers.QueryResolver\<close> is an interface: the model takes an implementation as a
  record of functions. Each method returns the tuple the Go method returns (the error as
  \<open>error option\<close>, \<open>None\<close> for nil) and may change the state \<open>'s\<close> of whatever is behind
  the interface. Go's \<^verbatim>\<open>int\<close> is at least as wide as \<^verbatim>\<open>int32\<close> and no arithmetic is
  done on it here, so it is \<open>int\<close>.
\<close>

record ('loc, 'diag, 'rng, 's) resolvers_QueryResolver =
  r_NavView :: "'s \<Rightarrow> (('loc, 'rng) RangeView list \<times> error option) \<times> 's"
  r_Definitions :: "int \<Rightarrow> int \<Rightarrow> 's \<Rightarrow> ('loc list \<times> error option) \<times> 's"
  r_References ::
    "int \<Rightarrow> int \<Rightarrow> int \<Rightarrow> string \<Rightarrow> 's \<Rightarrow> ('loc list \<times> string \<times> error option) \<times> 's"
  r_Hover :: "int \<Rightarrow> int \<Rightarrow> 's \<Rightarrow> (string \<times> 'rng \<times> bool \<times> error option) \<times> 's"
  r_Diagnostics :: "int \<Rightarrow> 's \<Rightarrow> ('diag list \<times> int \<times> error option) \<times> 's"

text \<open>
  To say that the underlying resolver was or was not called, the state threaded through
  the model is the list of calls made so far, with their arguments, beside the state
  behind the interface.
\<close>

datatype call =
    NavViewCall
  | DefinitionsCall int int
  | ReferencesCall int int int string
  | HoverCall int int
  | DiagnosticsCall int

record 's world =
  calls :: "call list"
  backend :: 's

definition invoke :: "call \<Rightarrow> ('s \<Rightarrow> 'a \<times> 's) \<Rightarrow> 's world \<Rightarrow> 'a \<times> 's world" where
  "invoke c f w =
     (case f (backend w) of (a, s') \<Rightarrow> (a, \<lparr>calls = calls w @ [c], backend = s'\<rparr>))"

subsection \<open>Helpers of the package that live in other files\<close>

text \<open>
  \<^verbatim>\<open>decodeCursor\<close> and \<^verbatim>\<open>convertRange\<close> are functions of the same package whose
  bodies are not in \<^verbatim>\<open>query.go\<close>. The model takes them as parameters:
  \<^verbatim>\<open>decodeCursor\<close> maps the \<^verbatim>\<open>*string\<close> of the request to a pair
  \<^verbatim>\<open>(string, error)\<close>.
\<close>

record ('rng, 'grng) helpers =
  decodeCursor :: "string option \<Rightarrow> string \<times> error option"
  convertRange :: "'rng \<Rightarrow> 'grng"

text \<open>
  Modelled from the spec: the body of \<^verbatim>\<open>derefInt32\<close> is in another file of the
  package. The spec says of the limit "default limit (100) applied when unset" and
  "callers may override with a positive integer": the default for the nil pointer, the
  pointed-to \<^verbatim>\<open>int32\<close> converted to \<^verbatim>\<open>int\<close> otherwise.
\<close>

definition derefInt32 :: "int32 option \<Rightarrow> int \<Rightarrow> int" where
  "derefInt32 val defaultValue = (case val of None \<Rightarrow> defaultValue | Some v \<Rightarrow> sint v)"

text \<open>
  Modelled from the spec: the body of \<^verbatim>\<open>strPtr\<close> is in another file of the package.
  The spec gives the output of References as "(list of Location, next cursor or absent)"
  and the last page as carrying "an empty/absent cursor": the empty string becomes the
  nil pointer, any other string a pointer to it.
\<close>

definition strPtr :: "string \<Rightarrow> string option" where
  "strPtr val = (if val = [] then None else Some val)"

subsection \<open>QueryResolver\<close>

definition DefaultReferencesPageSize :: int where
  "DefaultReferencesPageSize = 100"

definition DefaultDiagnosticsPageSize :: int where
  "DefaultDiagnosticsPageSize = 100"

record ('loc, 'diag, 'rng, 's, 'lr) QueryResolver =
  resolver :: "('loc, 'diag, 'rng, 's) resolvers_QueryResolver"
  locationResolver :: 'lr

definition ToGitTreeLSIFData ::
  "('loc, 'diag, 'rng, 's, 'lr) QueryResolver \<Rightarrow> ('loc, 'diag, 'rng, 's, 'lr) QueryResolver \<times> bool"
  where "ToGitTreeLSIFData r = (r, True)"

definition ToGitBlobLSIFData ::
  "('loc, 'diag, 'rng, 's, 'lr) QueryResolver \<Rightarrow> ('loc, 'diag, 'rng, 's, 'lr) QueryResolver \<times> bool"
  where "ToGitBlobLSIFData r = (r, True)"

definition QueryResolver_Definitions ::
  "('loc, 'diag, 'rng, 's, 'lr) QueryResolver \<Rightarrow> 'a LSIFQueryPositionArgs_scheme \<Rightarrow> 's world
    \<Rightarrow> (error + ('loc, 'lr) LocationConnectionResolver) \<times> 's world" where
  "QueryResolver_Definitions r args w =
     (case invoke (DefinitionsCall (sint (Line args)) (sint (Character args)))
             (r_Definitions (resolver r) (sint (Line args)) (sint (Character args))) w of
        ((locations, err), w') \<Rightarrow>
          (case err of
             Some e \<Rightarrow> (Inl e, w')
           | None \<Rightarrow> (Inr (NewLocationConnectionResolver locations None (locationResolver r)), w')))"

definition QueryResolver_References ::
  "('rng, 'grng) helpers \<Rightarrow> ('loc, 'diag, 'rng, 's, 'lr) QueryResolver
    \<Rightarrow> LSIFPagedQueryPositionArgs \<Rightarrow> 's world
    \<Rightarrow> (error + ('loc, 'lr) LocationConnectionResolver) \<times> 's world" where
  "QueryResolver_References h r args w =
     (let limit = derefInt32 (First args) DefaultReferencesPageSize in
      if limit \<le> 0 then (Inl ErrIllegalLimit, w)
      else
        (case decodeCursor h (After args) of
           (cursor, Some e) \<Rightarrow> (Inl e, w)
         | (cursor, None) \<Rightarrow>
             (case invoke
                     (ReferencesCall (sint (Line args)) (sint (Character args)) limit cursor)
                     (r_References (resolver r) (sint (Line args)) (sint (Character args))
                        limit cursor) w of
                ((locations, cursor', err), w') \<Rightarrow>
                  (case err of
                     Some e \<Rightarrow> (Inl e, w')
                   | None \<Rightarrow>
                       (Inr (NewLocationConnectionResolver locations (strPtr cursor')
                               (locationResolver r)), w')))))"

text \<open>
  \<^verbatim>\<open>Hover\<close> returns \<^verbatim>\<open>nil, err\<close> when \<^verbatim>\<open>err != nil || !exists\<close>: with a nil error
  that is the pair \<^verbatim>\<open>(nil, nil)\<close>, which the model writes \<open>Inr None\<close>.
\<close>

definition QueryResolver_Hover ::
  "('rng, 'grng) helpers \<Rightarrow> ('loc, 'diag, 'rng, 's, 'lr) QueryResolver
    \<Rightarrow> 'a LSIFQueryPositionArgs_scheme \<Rightarrow> 's world
    \<Rightarrow> (error + 'grng HoverResolver option) \<times> 's world" where
  "QueryResolver_Hover h r args w =
     (case invoke (HoverCall (sint (Line args)) (sint (Character args)))
             (r_Hover (resolver r) (sint (Line args)) (sint (Character args))) w of
        ((text, rx, exists, err), w') \<Rightarrow>
          if err \<noteq> None \<or> \<not> exists then
            (case err of Some e \<Rightarrow> (Inl e, w') | None \<Rightarrow> (Inr None, w'))
          else (Inr (Some (NewHoverResolver text (convertRange h rx))), w'))"

definition QueryResolver_Diagnostics ::
  "('loc, 'diag, 'rng, 's, 'lr) QueryResolver \<Rightarrow> LSIFDiagnosticsArgs \<Rightarrow> 's world
    \<Rightarrow> (error + ('diag, 'lr) DiagnosticConnectionResolver) \<times> 's world" where
  "QueryResolver_Diagnostics r args w =
     (let limit = derefInt32 (LSIFDiagnosticsArgs.First args) DefaultDiagnosticsPageSize in
      if limit \<le> 0 then (Inl ErrIllegalLimit, w)
      else
        (case invoke (DiagnosticsCall limit) (r_Diagnostics (resolver r) limit) w of
           ((diagnostics, totalCount, err), w') \<Rightarrow>
             (case err of
                Some e \<Rightarrow> (Inl e, w')
              | None \<Rightarrow>
                  (Inr (NewDiagnosticConnectionResolver diagnostics totalCount
                          (locationResolver r)), w'))))"

subsection \<open>The experimental NavView\<close>

record ('loc, 'rng, 'lr) navViewConnectionResolver =
  rangeViews :: "('loc, 'rng) RangeView list"
  nv_locationResolver :: 'lr

record ('loc, 'rng, 'lr) navRangeResolver =
  rangeView :: "('loc, 'rng) RangeView"
  nr_locationResolver :: 'lr

definition QueryResolver_NavView ::
  "('loc, 'diag, 'rng, 's, 'lr) QueryResolver \<Rightarrow> 's world
    \<Rightarrow> (error + ('loc, 'rng, 'lr) navViewConnectionResolver) \<times> 's world" where
  "QueryResolver_NavView r w =
     (case invoke NavViewCall (r_NavView (resolver r)) w of
        ((rvs, err), w') \<Rightarrow>
          (case err of
             Some e \<Rightarrow> (Inl e, w')
           | None \<Rightarrow>
               (Inr \<lparr>rangeViews = rvs, nv_locationResolver = locationResolver r\<rparr>, w')))"

text \<open>
  \<^verbatim>\<open>Nodes\<close> starts from the nil slice and appends one resolver per range view, in the
  order of the \<^verbatim>\<open>range\<close> loop; it always returns a nil error.
\<close>

definition navViewConnectionResolver_Nodes ::
  "('loc, 'rng, 'lr) navViewConnectionResolver
    \<Rightarrow> error + ('loc, 'rng, 'lr) navRangeResolver list" where
  "navViewConnectionResolver_Nodes r =
     Inr (foldl
            (\<lambda>resolvers rv.
               resolvers @ [\<lparr>rangeView = rv, nr_locationResolver = nv_locationResolver r\<rparr>])
            [] (rangeViews r))"

definition navRangeResolver_Range ::
  "('rng, 'grng) helpers \<Rightarrow> ('loc, 'rng, 'lr) navRangeResolver \<Rightarrow> error + 'grng RangeResolver" where
  "navRangeResolver_Range h r = Inr (NewRangeResolver (convertRange h (Range (rangeView r))))"

definition navRangeResolver_Definitions ::
  "('loc, 'rng, 'lr) navRangeResolver \<Rightarrow> error + ('loc, 'lr) LocationConnectionResolver" where
  "navRangeResolver_Definitions r =
     Inr (NewLocationConnectionResolver (Definitions (rangeView r)) None (nr_locationResolver r))"

definition navRangeResolver_References ::
  "('loc, 'rng, 'lr) navRangeResolver \<Rightarrow> error + ('loc, 'lr) LocationConnectionResolver" where
  "navRangeResolver_References r = Inl ErrUnimplemented"

definition navRangeResolver_Hover ::
  "('rng, 'grng) helpers \<Rightarrow> ('loc, 'rng, 'lr) navRangeResolver
    \<Rightarrow> error + 'grng HoverResolver" where
  "navRangeResolver_Hover h r =
     Inr (NewHoverResolver (HoverText (rangeView r)) (convertRange h (HoverRange (rangeView r))))"

section \<open>Paging through an index bundle\<close>

text \<open>
  Modelled from the spec: the implementation of \<^verbatim>\<open>resolvers.QueryResolver\<close> is in the
  parent package, which is not among the sources. The spec (section 4.1) gives the
  operations of the Bundle Accessor under it,
  "References(path, position, limit, offset-or-cursor-seed) -> ([]RawLocation, hasMore)",
  "ordered deterministically [...] so pagination is stable across calls against the same
  bundle", and "Diagnostics(limit) -> ([]Diagnostic, totalCount)", over a bundle that is
  immutable. The model: a bundle holds the ordered references of each position and its
  ordered diagnostics; a page of references is the \<open>limit\<close> items after the offset, and
  \<open>hasMore\<close> says whether items remain after the page; the diagnostics are the first
  \<open>limit\<close> items and the total count.
\<close>

record ('loc, 'diag) index_bundle =
  references :: "int \<Rightarrow> int \<Rightarrow> 'loc list"
  diagnostics :: "'diag list"

definition bundle_References ::
  "('loc, 'diag) index_bundle \<Rightarrow> int \<Rightarrow> int \<Rightarrow> nat \<Rightarrow> nat \<Rightarrow> 'loc list \<times> bool" where
  "bundle_References b line character limit offset =
     (take limit (drop offset (references b line character)),
      offset + limit < length (references b line character))"

definition bundle_Diagnostics :: "('loc, 'diag) index_bundle \<Rightarrow> nat \<Rightarrow> 'diag list \<times> nat" where
  "bundle_Diagnostics b limit = (take limit (diagnostics b), length (diagnostics b))"

text \<open>
  Modelled from the spec: the underlying resolver over such a bundle. The cursor string it
  takes and returns carries the offset of the next page ("an offset or last-seen key");
  the spec does not fix how the offset is written, so the two directions are parameters.
  The cursor it returns is empty when the bundle has no more items ("an empty/absent
  cursor"). The bundle is immutable, so the state behind the interface does not change.
  The operations that are not paged are those of \<open>base\<close>.
\<close>

record offset_codec =
  encodeOffset :: "nat \<Rightarrow> string"
  decodeOffset :: "string \<Rightarrow> nat option"

definition bundle_resolver ::
  "offset_codec \<Rightarrow> ('loc, 'diag) index_bundle \<Rightarrow> ('loc, 'diag, 'rng, 's) resolvers_QueryResolver
    \<Rightarrow> ('loc, 'diag, 'rng, 's) resolvers_QueryResolver" where
  "bundle_resolver c b base =
     base\<lparr>r_References := (\<lambda>line character limit cursor s.
             (case decodeOffset c cursor of
                None \<Rightarrow> (([], [], Some (ErrOther ''invalid cursor'')), s)
              | Some offset \<Rightarrow>
                  (case bundle_References b line character (nat limit) offset of
                     (page, hasMore) \<Rightarrow>
                       ((page, if hasMore then encodeOffset c (offset + nat limit) else [],
                         None), s)))),
          r_Diagnostics := (\<lambda>limit s.
             (case bundle_Diagnostics b (nat limit) of
                (page, totalCount) \<Rightarrow> ((page, int totalCount, None), s)))\<rparr>"

text \<open>
  The caller's side of pagination: call \<^verbatim>\<open>References\<close> with no cursor, then again with
  each cursor that comes back, until a page comes back without one. The connection holds
  the cursor as the underlying resolver returned it; \<open>enc\<close> is the encoding under which
  the caller receives it and sends it back in \<^verbatim>\<open>After\<close>. The result is the list of
  pages, \<open>None\<close> when the fuel ran out before the last page.
\<close>

fun paginate ::
  "nat \<Rightarrow> ('rng, 'grng) helpers \<Rightarrow> (string \<Rightarrow> string)
    \<Rightarrow> ('loc, 'diag, 'rng, 's, 'lr) QueryResolver
    \<Rightarrow> int32 \<Rightarrow> int32 \<Rightarrow> int32 option \<Rightarrow> string option \<Rightarrow> 's world
    \<Rightarrow> (error + 'loc list list) option \<times> 's world" where
  "paginate 0 h enc r line character first after w = (None, w)"
| "paginate (Suc fuel) h enc r line character first after w =
     (case QueryResolver_References h r
             \<lparr>Line = line, Character = character, First = first, After = after\<rparr> w of
        (Inl e, w') \<Rightarrow> (Some (Inl e), w')
      | (Inr conn, w') \<Rightarrow>
          (case conn_cursor conn of
             None \<Rightarrow> (Some (Inr [conn_locations conn]), w')
           | Some cursor \<Rightarrow>
               (case paginate fuel h enc r line character first (Some (enc cursor)) w' of
                  (Some (Inr pages), w'') \<Rightarrow> (Some (Inr (conn_locations conn # pages)), w'')
                | other \<Rightarrow> other)))"

section \<open>A sample underlying resolver\<close>

text \<open>
  A small implementation of the interface, used to instantiate the theorems below at
  concrete inputs. Its state counts the calls it has received. It fails on a negative
  line, finds nothing on line 0 and finds something on every other line. Locations and
  diagnostics are strings, ranges are numbers, and the pointer to the location resolver
  is a number.
\<close>

definition stub_resolver :: "(string, string, nat, nat) resolvers_QueryResolver" where
  "stub_resolver =
     \<lparr>r_NavView = (\<lambda>n. (([], None), Suc n)),
      r_Definitions = (\<lambda>line character n.
        (if line < 0 then ([], Some (ErrOther ''storage failure''))
         else if line = 0 then ([], None)
         else ([''a.go:10''], None), Suc n)),
      r_References = (\<lambda>line character limit cursor n.
        (if line < 0 then ([], [], Some (ErrOther ''storage failure''))
         else ([''a.go:10'', ''b.go:20''], ''next'', None), Suc n)),
      r_Hover = (\<lambda>line character n.
        (if line < 0 then ([], 0, False, Some (ErrOther ''storage failure''))
         else if line = 0 then ([], 0, False, None)
         else (''doc'', 7, True, None), Suc n)),
      r_Diagnostics = (\<lambda>limit n. (([''unused variable''], 1, None), Suc n))\<rparr>"

definition stub_query :: "(string, string, nat, nat, nat) QueryResolver" where
  "stub_query = \<lparr>resolver = stub_resolver, locationResolver = 1\<rparr>"

text \<open>
  A sample cursor encoding: an encoded cursor is the cursor after the letter \<open>c\<close>. The
  decoder takes the nil pointer and the empty string as the empty cursor and rejects a
  string that starts otherwise, such as \<open>!\<close>.
\<close>

definition stub_encodeCursor :: "string \<Rightarrow> string" where
  "stub_encodeCursor s = CHR ''c'' # s"

definition stub_helpers :: "(nat, nat) helpers" where
  "stub_helpers =
     \<lparr>decodeCursor = (\<lambda>val.
        case val of
          None \<Rightarrow> ([], None)
        | Some [] \<Rightarrow> ([], None)
        | Some (x # s) \<Rightarrow>
            if x = CHR ''c'' then (s, None) else ([], Some (ErrOther ''malformed cursor''))),
      convertRange = (\<lambda>n. n)\<rparr>"

text \<open>
  A sample bundle, the one of the spec's example scenario: three references to the symbol
  at line 10, character 3, and three diagnostics. Offsets are written in unary.
\<close>

definition stub_bundle :: "(string, string) index_bundle" where
  "stub_bundle =
     \<lparr>references = (\<lambda>line character.
        if line = 10 \<and> character = 3 then [''a.go:10'', ''b.go:20'', ''c.go:5''] else []),
      diagnostics = [''unused variable'', ''missing return'', ''shadowed name'']\<rparr>"

definition stub_offsets :: offset_codec where
  "stub_offsets =
     \<lparr>encodeOffset = (\<lambda>n. replicate n (CHR ''i'')),
      decodeOffset = (\<lambda>s. if list_all (\<lambda>x. x = CHR ''i'') s then Some (length s) else None)\<rparr>"

definition stub_paged_query :: "(string, string, nat, nat, nat) QueryResolver" where
  "stub_paged_query =
     \<lparr>resolver = bundle_resolver stub_offsets stub_bundle stub_resolver, locationResolver = 1\<rparr>"

definition world0 :: "nat world" where
  "world0 = \<lparr>calls = [], backend = 0\<rparr>"

section \<open>Invalid limits\<close>

text \<open>
  C1. Whenever the limit in effect (the caller's \<^verbatim>\<open>First\<close>, or the default page size
  when the caller gives none) is zero or negative, both \<^verbatim>\<open>References\<close> and
  \<^verbatim>\<open>Diagnostics\<close> return the "illegal limit" error, and the world they return is the
  one they were given: no call was added to the record of calls and the state behind the
  underlying resolver is untouched.
\<close>

theorem illegal_limit_rejected_before_backend:
  "(derefInt32 (First pargs) DefaultReferencesPageSize \<le> 0 \<longrightarrow>
      QueryResolver_References h r pargs w = (Inl ErrIllegalLimit, w)) \<and>
   (derefInt32 (LSIFDiagnosticsArgs.First dargs) DefaultDiagnosticsPageSize \<le> 0 \<longrightarrow>
      QueryResolver_Diagnostics r dargs w = (Inl ErrIllegalLimit, w))"
  by (simp add: QueryResolver_References_def QueryResolver_Diagnostics_def)

theorem illegal_limit_rejected_before_backend_witness:
  "QueryResolver_References stub_helpers stub_query
     \<lparr>Line = 3, Character = 4, First = Some 0, After = None\<rparr> world0
     = (Inl ErrIllegalLimit, world0) \<and>
   QueryResolver_Diagnostics stub_query \<lparr>LSIFDiagnosticsArgs.First = Some (- 1)\<rparr> world0
     = (Inl ErrIllegalLimit, world0)"
  using illegal_limit_rejected_before_backend
    [of "\<lparr>Line = 3, Character = 4, First = Some 0, After = None\<rparr>"
        stub_helpers stub_query world0 "\<lparr>LSIFDiagnosticsArgs.First = Some (- 1)\<rparr>"]
  by (simp add: derefInt32_def DefaultDiagnosticsPageSize_def)

text \<open>
  C10. In \<^verbatim>\<open>References\<close> the limit is checked before the cursor is decoded: with a
  limit in effect that is zero or negative the result is the "illegal limit" error and
  the world is unchanged, whatever the \<^verbatim>\<open>After\<close> argument is and whatever the cursor
  decoder would say about it.
\<close>

theorem illegal_limit_precedes_cursor_decoding:
  "derefInt32 (First args) DefaultReferencesPageSize \<le> 0 \<Longrightarrow>
   QueryResolver_References h r (args\<lparr>After := after\<rparr>) w = (Inl ErrIllegalLimit, w)"
  by (simp add: QueryResolver_References_def)

theorem illegal_limit_precedes_cursor_decoding_witness:
  "snd (decodeCursor stub_helpers (Some ''!'')) = Some (ErrOther ''malformed cursor'') \<and>
   QueryResolver_References stub_helpers stub_query
     \<lparr>Line = 3, Character = 4, First = Some (- 5), After = Some ''!''\<rparr> world0
     = (Inl ErrIllegalLimit, world0)"
  using illegal_limit_precedes_cursor_decoding
    [of "\<lparr>Line = 3, Character = 4, First = Some (- 5), After = None\<rparr>"
        stub_helpers stub_query "Some ''!''" world0]
  by (simp add: derefInt32_def stub_helpers_def)

section \<open>Default page sizes\<close>

text \<open>
  C2. When the caller gives no \<^verbatim>\<open>First\<close>, the call that \<^verbatim>\<open>References\<close> makes to the
  underlying resolver (once the cursor has decoded) carries the limit 100, and so does
  the call that \<^verbatim>\<open>Diagnostics\<close> makes: the call appended to the record of calls has
  limit 100, and the state behind the interface is the one the method leaves when called
  with 100.
\<close>

theorem default_page_size_is_100:
  "(First pargs = None \<and> decodeCursor h (After pargs) = (cursor, None) \<longrightarrow>
      calls (snd (QueryResolver_References h r pargs w))
        = calls w @ [ReferencesCall (sint (Line pargs)) (sint (Character pargs)) 100 cursor] \<and>
      backend (snd (QueryResolver_References h r pargs w))
        = snd (r_References (resolver r) (sint (Line pargs)) (sint (Character pargs))
                 100 cursor (backend w))) \<and>
   (LSIFDiagnosticsArgs.First dargs = None \<longrightarrow>
      calls (snd (QueryResolver_Diagnostics r dargs w)) = calls w @ [DiagnosticsCall 100] \<and>
      backend (snd (QueryResolver_Diagnostics r dargs w))
        = snd (r_Diagnostics (resolver r) 100 (backend w)))"
  by (simp add: QueryResolver_References_def QueryResolver_Diagnostics_def derefInt32_def
      DefaultReferencesPageSize_def DefaultDiagnosticsPageSize_def invoke_def
      split: prod.split option.split)

theorem default_page_size_is_100_witness:
  "calls (snd (QueryResolver_References stub_helpers stub_query
      \<lparr>Line = 3, Character = 4, First = None, After = Some ''cabc''\<rparr> world0))
     = [ReferencesCall 3 4 100 ''abc''] \<and>
   calls (snd (QueryResolver_Diagnostics stub_query \<lparr>LSIFDiagnosticsArgs.First = None\<rparr> world0))
     = [DiagnosticsCall 100]"
  using default_page_size_is_100
    [of "\<lparr>Line = 3, Character = 4, First = None, After = Some ''cabc''\<rparr>"
        stub_helpers "''abc''" stub_query world0 "\<lparr>LSIFDiagnosticsArgs.First = None\<rparr>"]
  by (simp add: stub_helpers_def world0_def)

section \<open>Results that are empty but not errors\<close>

text \<open>
  C3. When the underlying resolver reports no error and \<^verbatim>\<open>exists = false\<close>,
  \<^verbatim>\<open>Hover\<close> returns the pair \<^verbatim>\<open>(nil, nil)\<close>: success with no hover resolver. When the
  underlying resolver reports an error, \<^verbatim>\<open>Hover\<close> returns that error. The two results
  are different values.
\<close>

theorem hover_not_found_is_not_an_error:
  "(r_Hover (resolver r) (sint (Line args)) (sint (Character args)) (backend w)
      = ((text, rx, False, None), s) \<longrightarrow>
    fst (QueryResolver_Hover h r args w) = Inr None) \<and>
   (r_Hover (resolver r') (sint (Line args')) (sint (Character args')) (backend w')
      = ((text', rx', ex, Some e), s') \<longrightarrow>
    fst (QueryResolver_Hover h r' args' w') = Inl e \<and>
    fst (QueryResolver_Hover h r' args' w') \<noteq> Inr None)"
  by (simp add: QueryResolver_Hover_def invoke_def)

theorem hover_not_found_is_not_an_error_witness:
  "fst (QueryResolver_Hover stub_helpers stub_query \<lparr>Line = 0, Character = 4\<rparr> world0)
     = Inr None \<and>
   fst (QueryResolver_Hover stub_helpers stub_query \<lparr>Line = - 1, Character = 4\<rparr> world0)
     = Inl (ErrOther ''storage failure'')"
  using hover_not_found_is_not_an_error
    [of stub_query "\<lparr>Line = 0, Character = 4\<rparr>" world0 "[]" 0 1 stub_helpers
        stub_query "\<lparr>Line = - 1, Character = 4\<rparr>" world0 "[]" 0 False
        "ErrOther ''storage failure''" 1]
  by (simp add: stub_query_def stub_resolver_def world0_def)

text \<open>
  C6. When the underlying resolver finds no definitions at the position and reports no
  error, \<^verbatim>\<open>Definitions\<close> succeeds, and the connection it returns was built from the
  empty list of locations and no cursor.
\<close>

theorem definitions_none_found_is_empty_success:
  "r_Definitions (resolver r) (sint (Line args)) (sint (Character args)) (backend w)
     = (([], None), s) \<Longrightarrow>
   fst (QueryResolver_Definitions r args w)
     = Inr (NewLocationConnectionResolver [] None (locationResolver r))"
  by (simp add: QueryResolver_Definitions_def invoke_def)

theorem definitions_none_found_is_empty_success_witness:
  "r_Definitions (resolver stub_query) (sint (0 :: int32)) (sint (4 :: int32)) (backend world0)
     = (([], None), 1) \<and>
   fst (QueryResolver_Definitions stub_query \<lparr>Line = 0, Character = 4\<rparr> world0)
     = Inr (NewLocationConnectionResolver [] None 1)"
proof -
  have h: "r_Definitions (resolver stub_query)
             (sint (Line \<lparr>Line = 0, Character = 4\<rparr>))
             (sint (Character \<lparr>Line = 0, Character = 4\<rparr>)) (backend world0)
           = (([], None), 1)"
    by (simp add: stub_query_def stub_resolver_def world0_def)
  show ?thesis
    using h definitions_none_found_is_empty_success [OF h]
    by (simp add: stub_query_def)
qed

section \<open>Malformed cursors\<close>

text \<open>
  C5, as the claim states it, fails: with a limit in effect that is zero or negative and
  a cursor that the decoder rejects, \<^verbatim>\<open>References\<close> returns the "illegal limit" error,
  not the decoder's error.
\<close>

theorem malformed_cursor_with_illegal_limit_counterexample:
  "snd (decodeCursor stub_helpers (Some ''!'')) = Some (ErrOther ''malformed cursor'') \<and>
   fst (QueryResolver_References stub_helpers stub_query
          \<lparr>Line = 3, Character = 4, First = Some 0, After = Some ''!''\<rparr> world0)
     = Inl ErrIllegalLimit \<and>
   fst (QueryResolver_References stub_helpers stub_query
          \<lparr>Line = 3, Character = 4, First = Some 0, After = Some ''!''\<rparr> world0)
     \<noteq> Inl (ErrOther ''malformed cursor'')"
  by (simp add: QueryResolver_References_def derefInt32_def stub_helpers_def)

text \<open>
  C5, amended. For every \<^verbatim>\<open>References\<close> call whose cursor argument fails to decode,
  the world is unchanged, so the underlying resolver is not called; and when the limit in
  effect is positive, the result is the decoder's error.
\<close>

theorem malformed_cursor_rejected_before_backend:
  "decodeCursor h (After args) = (cursor, Some e) \<Longrightarrow>
   snd (QueryResolver_References h r args w) = w \<and>
   (0 < derefInt32 (First args) DefaultReferencesPageSize \<longrightarrow>
      fst (QueryResolver_References h r args w) = Inl e)"
  by (simp add: QueryResolver_References_def Let_def)

theorem malformed_cursor_rejected_before_backend_witness:
  "decodeCursor stub_helpers (Some ''!'') = ([], Some (ErrOther ''malformed cursor'')) \<and>
   0 < derefInt32 (Some 10) DefaultReferencesPageSize \<and>
   QueryResolver_References stub_helpers stub_query
     \<lparr>Line = 3, Character = 4, First = Some 10, After = Some ''!''\<rparr> world0
     = (Inl (ErrOther ''malformed cursor''), world0)"
proof -
  have d: "decodeCursor stub_helpers
             (After \<lparr>Line = 3, Character = 4, First = Some 10, After = Some ''!''\<rparr>)
           = ([], Some (ErrOther ''malformed cursor''))"
    by (simp add: stub_helpers_def)
  have l: "0 < derefInt32 (Some 10) DefaultReferencesPageSize"
    by (simp add: derefInt32_def)
  show ?thesis
    using l d malformed_cursor_rejected_before_backend [OF d, of stub_query world0]
    by (simp add: prod_eq_iff)
qed

section \<open>The experimental NavView\<close>

lemma foldl_snoc_map: "foldl (\<lambda>acc x. acc @ [f x]) acc0 xs = acc0 @ map f xs"
  by (induction xs arbitrary: acc0) simp_all

text \<open>
  C9. \<^verbatim>\<open>Nodes\<close> never fails, and its result has one resolver per range view of the
  connection, in the order of the range views: the list of resolvers is the list of range
  views with each one wrapped together with the connection's location resolver, so the
  two lists have the same length and reading the range views back gives the input list.
\<close>

theorem nodes_one_per_range_view_in_order:
  "\<exists>ns. navViewConnectionResolver_Nodes r = Inr ns \<and>
         ns = map (\<lambda>rv. \<lparr>rangeView = rv, nr_locationResolver = nv_locationResolver r\<rparr>)
                (rangeViews r) \<and>
         length ns = length (rangeViews r) \<and>
         map rangeView ns = rangeViews r"
  by (simp add: navViewConnectionResolver_Nodes_def foldl_snoc_map comp_def)

text \<open>
  C4. The \<^verbatim>\<open>References\<close> of a NavView range resolver returns the "unimplemented"
  error for every receiver; it is never a successful result. The function has no other
  branch, so there is nothing in it that could panic.
\<close>

theorem nav_range_references_unimplemented:
  "navRangeResolver_References r = Inl ErrUnimplemented \<and>
   (\<forall>conn. navRangeResolver_References r \<noteq> Inr conn)"
  by (simp add: navRangeResolver_References_def)

section \<open>Pagination\<close>

text \<open>
  One page of \<^verbatim>\<open>References\<close> over a bundle: the \<open>limit\<close> items after the offset that
  the cursor carries, and a cursor for the next offset when items remain.
\<close>

lemma References_page:
  assumes lim: "0 < derefInt32 first DefaultReferencesPageSize"
    and dc: "decodeCursor h after = (cur, None)"
    and dof: "decodeOffset c cur = Some off"
    and res: "resolver r = bundle_resolver c b base"
  shows "QueryResolver_References h r
           \<lparr>Line = line, Character = character, First = first, After = after\<rparr> w
         = (Inr (NewLocationConnectionResolver
                   (take (nat (derefInt32 first DefaultReferencesPageSize))
                      (drop off (references b (sint line) (sint character))))
                   (strPtr (if off + nat (derefInt32 first DefaultReferencesPageSize)
                                < length (references b (sint line) (sint character))
                            then encodeOffset c
                                   (off + nat (derefInt32 first DefaultReferencesPageSize))
                            else []))
                   (locationResolver r)),
            \<lparr>calls = calls w @ [ReferencesCall (sint line) (sint character)
                                  (derefInt32 first DefaultReferencesPageSize) cur],
             backend = backend w\<rparr>)"
  using lim dc dof
  by (simp add: QueryResolver_References_def res bundle_resolver_def bundle_References_def
      invoke_def Let_def)

text \<open>
  Paging from any offset returns the rest of the items: by induction on the fuel, with
  the cursor, the offset and the world generalised, since every page changes them.
\<close>

lemma paginate_from_offset:
  assumes lim: "0 < derefInt32 first DefaultReferencesPageSize"
    and rt: "\<And>s. decodeCursor h (Some (enc s)) = (s, None)"
    and ort: "\<And>n. decodeOffset c (encodeOffset c n) = Some n"
    and ne: "\<And>n. 0 < n \<Longrightarrow> encodeOffset c n \<noteq> []"
    and res: "resolver r = bundle_resolver c b base"
  shows "decodeCursor h after = (cur, None) \<Longrightarrow> decodeOffset c cur = Some off \<Longrightarrow>
         length (references b (sint line) (sint character)) - off < fuel \<Longrightarrow>
         \<exists>pages w'. paginate fuel h enc r line character first after w = (Some (Inr pages), w')
           \<and> concat pages = drop off (references b (sint line) (sint character))
           \<and> list_all (\<lambda>p. length p \<le> nat (derefInt32 first DefaultReferencesPageSize)) pages"
proof (induction fuel arbitrary: after cur off w)
  case 0
  then show ?case by simp
next
  case (Suc fuel)
  let ?L = "nat (derefInt32 first DefaultReferencesPageSize)"
  let ?items = "references b (sint line) (sint character)"
  have Lpos: "0 < ?L" using lim by simp
  note page = References_page [OF lim Suc.prems(1) Suc.prems(2) res, of line character w]
  show ?case
  proof (cases "off + ?L < length ?items")
    case True
    let ?cur' = "encodeOffset c (off + ?L)"
    let ?w' = "\<lparr>calls = calls w @ [ReferencesCall (sint line) (sint character)
                                  (derefInt32 first DefaultReferencesPageSize) cur],
               backend = backend w\<rparr>"
    have nonempty: "?cur' \<noteq> []" using ne Lpos by simp
    have fuel: "length ?items - (off + ?L) < fuel" using Suc.prems(3) True Lpos by linarith
    from Suc.IH [OF rt ort fuel, of ?w']
    obtain pages w'' where
      p: "paginate fuel h enc r line character first (Some (enc ?cur')) ?w'
            = (Some (Inr pages), w'')"
      and c: "concat pages = drop (off + ?L) ?items"
      and l: "list_all (\<lambda>p. length p \<le> ?L) pages"
      by blast
    have "take ?L (drop off ?items) @ drop (off + ?L) ?items = drop off ?items"
      by (metis add.commute append_take_drop_id drop_drop)
    then show ?thesis
      using page True nonempty p c l by (simp add: strPtr_def)
  next
    case False
    then have "take ?L (drop off ?items) = drop off ?items" by simp
    then show ?thesis using page False by (simp add: strPtr_def)
  qed
qed

lemma Diagnostics_page:
  assumes lim: "0 < derefInt32 first DefaultDiagnosticsPageSize"
    and res: "resolver r = bundle_resolver c b base"
  shows "QueryResolver_Diagnostics r \<lparr>LSIFDiagnosticsArgs.First = first\<rparr> w
         = (Inr (NewDiagnosticConnectionResolver
                   (take (nat (derefInt32 first DefaultDiagnosticsPageSize)) (diagnostics b))
                   (int (length (diagnostics b))) (locationResolver r)),
            \<lparr>calls = calls w @ [DiagnosticsCall (derefInt32 first DefaultDiagnosticsPageSize)],
             backend = backend w\<rparr>)"
  using lim
  by (simp add: QueryResolver_Diagnostics_def res bundle_resolver_def bundle_Diagnostics_def
      invoke_def Let_def)

lemma stub_cursor_roundtrip:
  "decodeCursor stub_helpers (Some (stub_encodeCursor s)) = (s, None)"
  by (simp add: stub_helpers_def stub_encodeCursor_def)

lemma stub_offset_roundtrip:
  "decodeOffset stub_offsets (encodeOffset stub_offsets n) = Some n"
  by (simp add: stub_offsets_def list_all_iff)

lemma stub_offset_nonempty: "0 < n \<Longrightarrow> encodeOffset stub_offsets n \<noteq> []"
  by (simp add: stub_offsets_def)

text \<open>
  C8, as the claim states it, fails for \<^verbatim>\<open>Diagnostics\<close>, which takes no cursor and
  returns none. Over the sample bundle, whose diagnostics are three, a call with limit 2
  returns the first two and the total count 3; a second call, made in the world the first
  one left, returns the same two again; the third diagnostic is never returned.
\<close>

theorem diagnostics_pagination_counterexample:
  "fst (QueryResolver_Diagnostics stub_paged_query \<lparr>LSIFDiagnosticsArgs.First = Some 2\<rparr> world0)
     = Inr (NewDiagnosticConnectionResolver [''unused variable'', ''missing return''] 3 1) \<and>
   fst (QueryResolver_Diagnostics stub_paged_query \<lparr>LSIFDiagnosticsArgs.First = Some 2\<rparr>
          (snd (QueryResolver_Diagnostics stub_paged_query
                  \<lparr>LSIFDiagnosticsArgs.First = Some 2\<rparr> world0)))
     = Inr (NewDiagnosticConnectionResolver [''unused variable'', ''missing return''] 3 1) \<and>
   ''shadowed name'' \<in> set (diagnostics stub_bundle) \<and>
   ''shadowed name'' \<notin> set [''unused variable'', ''missing return'']"
  by (simp add: QueryResolver_Diagnostics_def stub_paged_query_def bundle_resolver_def
      bundle_Diagnostics_def stub_bundle_def derefInt32_def invoke_def world0_def Let_def)

text \<open>
  C8, amended. Over a bundle, with a cursor encoding and an offset encoding that decode
  what they encode (and decode the absent and the empty cursor as the start, and write a
  positive offset as a non-empty string):

  \<^item> for every positive limit, calling \<^verbatim>\<open>References\<close> with no cursor and then with each
    cursor that comes back ends (any fuel above the number of references is enough), every
    page has at most \<open>limit\<close> items, and the pages one after the other are the references
    of the position, each once and in the bundle's order;
  \<^item> for every positive limit, \<^verbatim>\<open>Diagnostics\<close> returns, whatever the world it is called
    in, the first \<open>limit\<close> diagnostics of the bundle (at most \<open>limit\<close> items) and the total
    count. It returns no cursor: the diagnostics after the first \<open>limit\<close> are not reached
    by calling again.
\<close>

theorem pagination_over_bundle:
  assumes res: "resolver r = bundle_resolver c b base"
    and d0: "decodeCursor h None = ([], None)"
    and rt: "\<And>s. decodeCursor h (Some (enc s)) = (s, None)"
    and o0: "decodeOffset c [] = Some 0"
    and ort: "\<And>n. decodeOffset c (encodeOffset c n) = Some n"
    and ne: "\<And>n. 0 < n \<Longrightarrow> encodeOffset c n \<noteq> []"
  shows
    "(0 < derefInt32 first DefaultReferencesPageSize \<and>
      length (references b (sint line) (sint character)) < fuel \<longrightarrow>
        (\<exists>pages w'.
           paginate fuel h enc r line character first None w = (Some (Inr pages), w') \<and>
           concat pages = references b (sint line) (sint character) \<and>
           list_all (\<lambda>p. length p \<le> nat (derefInt32 first DefaultReferencesPageSize)) pages)) \<and>
     (0 < derefInt32 dfirst DefaultDiagnosticsPageSize \<longrightarrow>
        fst (QueryResolver_Diagnostics r \<lparr>LSIFDiagnosticsArgs.First = dfirst\<rparr> w')
          = Inr (NewDiagnosticConnectionResolver
                   (take (nat (derefInt32 dfirst DefaultDiagnosticsPageSize)) (diagnostics b))
                   (int (length (diagnostics b))) (locationResolver r)) \<and>
        length (take (nat (derefInt32 dfirst DefaultDiagnosticsPageSize)) (diagnostics b))
          \<le> nat (derefInt32 dfirst DefaultDiagnosticsPageSize))"
proof (intro conjI impI)
  assume "0 < derefInt32 first DefaultReferencesPageSize \<and>
      length (references b (sint line) (sint character)) < fuel"
  then have lim: "0 < derefInt32 first DefaultReferencesPageSize"
    and fuel: "length (references b (sint line) (sint character)) - 0 < fuel"
    by simp_all
  from paginate_from_offset [OF lim rt ort ne res d0 o0 fuel, of w]
  show "\<exists>pages w'.
           paginate fuel h enc r line character first None w = (Some (Inr pages), w') \<and>
           concat pages = references b (sint line) (sint character) \<and>
           list_all (\<lambda>p. length p \<le> nat (derefInt32 first DefaultReferencesPageSize)) pages"
    by simp
next
  assume lim: "0 < derefInt32 dfirst DefaultDiagnosticsPageSize"
  show "fst (QueryResolver_Diagnostics r \<lparr>LSIFDiagnosticsArgs.First = dfirst\<rparr> w')
          = Inr (NewDiagnosticConnectionResolver
                   (take (nat (derefInt32 dfirst DefaultDiagnosticsPageSize)) (diagnostics b))
                   (int (length (diagnostics b))) (locationResolver r))"
    by (simp add: Diagnostics_page [OF lim res])
next
  show "length (take (nat (derefInt32 dfirst DefaultDiagnosticsPageSize)) (diagnostics b))
          \<le> nat (derefInt32 dfirst DefaultDiagnosticsPageSize)"
    by simp
qed

text \<open>
  The instance is the spec's example scenario: three references, limit 2. The first page
  has two locations and a cursor, the second page the remaining one and no cursor.
\<close>

theorem pagination_over_bundle_witness:
  "paginate 4 stub_helpers stub_encodeCursor stub_paged_query 10 3 (Some 2) None world0
     = (Some (Inr [[''a.go:10'', ''b.go:20''], [''c.go:5'']]),
        \<lparr>calls = [ReferencesCall 10 3 2 [], ReferencesCall 10 3 2 ''ii''], backend = 0\<rparr>) \<and>
   (\<exists>pages w'.
      paginate 4 stub_helpers stub_encodeCursor stub_paged_query 10 3 (Some 2) None world0
        = (Some (Inr pages), w') \<and>
      concat pages = [''a.go:10'', ''b.go:20'', ''c.go:5''] \<and>
      list_all (\<lambda>p. length p \<le> 2) pages) \<and>
   fst (QueryResolver_Diagnostics stub_paged_query \<lparr>LSIFDiagnosticsArgs.First = Some 2\<rparr> world0)
     = Inr (NewDiagnosticConnectionResolver [''unused variable'', ''missing return''] 3 1)"
proof -
  have res: "resolver stub_paged_query = bundle_resolver stub_offsets stub_bundle stub_resolver"
    by (simp add: stub_paged_query_def)
  have d0: "decodeCursor stub_helpers None = ([], None)"
    by (simp add: stub_helpers_def)
  have o0: "decodeOffset stub_offsets [] = Some 0"
    by (simp add: stub_offsets_def)
  have run: "paginate 4 stub_helpers stub_encodeCursor stub_paged_query 10 3 (Some 2) None world0
     = (Some (Inr [[''a.go:10'', ''b.go:20''], [''c.go:5'']]),
        \<lparr>calls = [ReferencesCall 10 3 2 [], ReferencesCall 10 3 2 ''ii''], backend = 0\<rparr>)"
    by (simp add: numeral_eq_Suc QueryResolver_References_def stub_paged_query_def
        bundle_resolver_def bundle_References_def stub_bundle_def stub_offsets_def
        stub_helpers_def stub_encodeCursor_def derefInt32_def invoke_def strPtr_def world0_def
        Let_def)
  note t = pagination_over_bundle
    [OF res d0 stub_cursor_roundtrip o0 stub_offset_roundtrip stub_offset_nonempty,
     of "Some 2" 10 3 4 world0 "Some 2" world0]
  show ?thesis
    using run t
    by (simp add: derefInt32_def stub_bundle_def stub_paged_query_def)
qed

end
